theory Spec2Isabelle
  imports Complex_Main "HOL-Library.Product_Lexorder"
begin

section \<open>Text\<close>

text \<open>
  A Python \<open>str\<close> is a sequence of Unicode code points; it is modelled as a list of
  integers, so that \<open>length\<close> counts what Python's \<open>len\<close> counts and the rupee sign
  (U+20B9) of the source's patterns can be written. An ASCII literal is written
  \<open>U ''abc''\<close>. The character classes follow Python on the ASCII range: decimal digits
  are \<open>0\<close>..\<open>9\<close>, letters are \<open>a\<close>..\<open>z\<close> and \<open>A\<close>..\<open>Z\<close>, and case conversion touches
  these letters only. White space is the full list of code points for which
  \<open>str.isspace\<close> holds.
\<close>

type_synonym ustr = "int list"

abbreviation U :: "string \<Rightarrow> ustr" where
  "U s \<equiv> map of_char s"

definition rupee :: int where
  "rupee = 8377"

definition newline :: int where
  "newline = 10"

definition is_digit :: "int \<Rightarrow> bool" where
  "is_digit c = (48 \<le> c \<and> c \<le> 57)"

definition is_upper :: "int \<Rightarrow> bool" where
  "is_upper c = (65 \<le> c \<and> c \<le> 90)"

definition is_lower :: "int \<Rightarrow> bool" where
  "is_lower c = (97 \<le> c \<and> c \<le> 122)"

definition is_word :: "int \<Rightarrow> bool" where
  "is_word c = (is_digit c \<or> is_upper c \<or> is_lower c \<or> c = 95)"

definition is_space :: "int \<Rightarrow> bool" where
  "is_space c = ((9 \<le> c \<and> c \<le> 13) \<or> (28 \<le> c \<and> c \<le> 32) \<or> c = 133 \<or> c = 160
     \<or> c = 5760 \<or> (8192 \<le> c \<and> c \<le> 8202) \<or> c = 8232 \<or> c = 8233 \<or> c = 8239
     \<or> c = 8287 \<or> c = 12288)"

definition upper_char :: "int \<Rightarrow> int" where
  "upper_char c = (if is_lower c then c - 32 else c)"

definition lower_char :: "int \<Rightarrow> int" where
  "lower_char c = (if is_upper c then c + 32 else c)"

definition upper :: "ustr \<Rightarrow> ustr" where
  "upper s = map upper_char s"

definition lower :: "ustr \<Rightarrow> ustr" where
  "lower s = map lower_char s"

text \<open>\<open>str.title\<close>: a letter is upper-cased after a non-letter, lower-cased after a letter.\<close>

fun title_from :: "bool \<Rightarrow> ustr \<Rightarrow> ustr" where
  "title_from after_letter [] = []"
| "title_from after_letter (c # cs) =
     (if is_upper c \<or> is_lower c
      then (if after_letter then lower_char c else upper_char c) # title_from True cs
      else c # title_from False cs)"

definition title :: "ustr \<Rightarrow> ustr" where
  "title s = title_from False s"

definition strip :: "ustr \<Rightarrow> ustr" where
  "strip s = rev (dropWhile is_space (rev (dropWhile is_space s)))"

text \<open>\<open>s.replace(c, '')\<close> for a one-character \<open>c\<close>.\<close>

definition remove_char :: "int \<Rightarrow> ustr \<Rightarrow> ustr" where
  "remove_char c s = filter (\<lambda>x. x \<noteq> c) s"

text \<open>\<open>s.split(sep)\<close> for a one-character separator: never the empty list.\<close>

fun split_on :: "int \<Rightarrow> ustr \<Rightarrow> ustr list" where
  "split_on sep [] = [[]]"
| "split_on sep (c # cs) =
     (if c = sep then [] # split_on sep cs
      else (case split_on sep cs of [] \<Rightarrow> [[c]] | p # ps \<Rightarrow> (c # p) # ps))"

text \<open>\<open>needle in hay\<close> on strings.\<close>

fun is_prefix :: "ustr \<Rightarrow> ustr \<Rightarrow> bool" where
  "is_prefix [] s = True"
| "is_prefix (a # as) [] = False"
| "is_prefix (a # as) (c # cs) = (a = c \<and> is_prefix as cs)"

fun contains :: "ustr \<Rightarrow> ustr \<Rightarrow> bool" where
  "contains needle [] = (needle = [])"
| "contains needle (c # cs) = (is_prefix needle (c # cs) \<or> contains needle cs)"

text \<open>\<open>any(word in s for word in words)\<close>.\<close>

definition any_in :: "ustr list \<Rightarrow> ustr \<Rightarrow> bool" where
  "any_in words s = list_ex (\<lambda>w. contains w s) words"

text \<open>\<open>str.isdigit\<close>: at least one character, all of them digits.\<close>

definition isdigit :: "ustr \<Rightarrow> bool" where
  "isdigit s = (s \<noteq> [] \<and> list_all is_digit s)"

definition digit_val :: "int \<Rightarrow> int" where
  "digit_val c = c - 48"

definition digits_val :: "ustr \<Rightarrow> int" where
  "digits_val s = foldl (\<lambda>n c. 10 * n + digit_val c) 0 s"

text \<open>
  \<open>float(s)\<close> on a decimal literal: surrounding white space, an optional sign, digits
  with at most one point and at least one digit. The value is kept as an exact rational;
  a failure is Python's \<open>ValueError\<close>. Exponents, underscores and the non-finite
  literals, which \<open>float\<close> also reads, are outside this model; no string that passes
  the digit tests of the parsers contains them.
\<close>

definition unsigned_float :: "ustr \<Rightarrow> rat option" where
  "unsigned_float s =
     (let ip = takeWhile is_digit s; r = dropWhile is_digit s in
      if r = [] then (if ip = [] then None else Some (of_int (digits_val ip)))
      else if hd r = 46 \<and> list_all is_digit (tl r) \<and> (ip \<noteq> [] \<or> tl r \<noteq> [])
      then Some (of_int (digits_val ip) + of_int (digits_val (tl r)) / 10 ^ length (tl r))
      else None)"

definition py_float :: "ustr \<Rightarrow> rat option" where
  "py_float s =
     (case strip s of
        [] \<Rightarrow> None
      | c # cs \<Rightarrow>
          if c = 45 then map_option uminus (unsigned_float cs)
          else if c = 43 then unsigned_float cs
          else unsigned_float (c # cs))"

section \<open>Regular expressions\<close>

text \<open>
  The patterns of the source use literals, alternatives of literals, greedy repetitions
  of a character class and the word boundary. \<open>rmatch\<close> is Python's backtracking
  matcher on that fragment: it returns the text matched by each element of the sequence,
  for the first successful way to match in Python's order of preference (a greedy
  repetition tries its longest run first, an alternative its leftmost branch first).
\<close>

datatype atom =
    Lit ustr
  | OneOf "ustr list"
  | Rep "int \<Rightarrow> bool" nat "nat option"
  | WordB

text \<open>A pattern: the \<open>IGNORECASE\<close> flag and the top-level alternatives.\<close>

type_synonym regex = "bool \<times> atom list list"

fun first_some :: "('a \<Rightarrow> 'b option) \<Rightarrow> 'a list \<Rightarrow> 'b option" where
  "first_some f [] = None"
| "first_some f (x # xs) = (case f x of Some y \<Rightarrow> Some y | None \<Rightarrow> first_some f xs)"

definition lit_prefix :: "bool \<Rightarrow> ustr \<Rightarrow> ustr \<Rightarrow> bool" where
  "lit_prefix ic l s =
     (if ic then is_prefix (lower l) (lower (take (length l) s)) else is_prefix l s)"

definition prev_after :: "int option \<Rightarrow> ustr \<Rightarrow> int option" where
  "prev_after prev piece = (if piece = [] then prev else Some (last piece))"

definition at_boundary :: "int option \<Rightarrow> ustr \<Rightarrow> bool" where
  "at_boundary prev s =
     ((case prev of None \<Rightarrow> False | Some c \<Rightarrow> is_word c)
        \<noteq> (case s of [] \<Rightarrow> False | c # _ \<Rightarrow> is_word c))"

definition run_length :: "(int \<Rightarrow> bool) \<Rightarrow> nat option \<Rightarrow> ustr \<Rightarrow> nat" where
  "run_length p hi s =
     (let k = length (takeWhile p s) in case hi of None \<Rightarrow> k | Some h \<Rightarrow> min h k)"

primrec rmatch :: "atom list \<Rightarrow> bool \<Rightarrow> int option \<Rightarrow> ustr \<Rightarrow> ustr list option" where
  "rmatch [] ic prev s = Some []"
| "rmatch (a # as) ic prev s =
     (case a of
        Lit l \<Rightarrow>
          if lit_prefix ic l s
          then map_option ((#) (take (length l) s))
                 (rmatch as ic (prev_after prev (take (length l) s)) (drop (length l) s))
          else None
      | OneOf ls \<Rightarrow>
          first_some
            (\<lambda>l. if lit_prefix ic l s
                 then map_option ((#) (take (length l) s))
                        (rmatch as ic (prev_after prev (take (length l) s)) (drop (length l) s))
                 else None) ls
      | Rep p lo hi \<Rightarrow>
          first_some
            (\<lambda>n. map_option ((#) (take n s))
                   (rmatch as ic (prev_after prev (take n s)) (drop n s)))
            (rev [lo ..< Suc (run_length p hi s)])
      | WordB \<Rightarrow>
          if at_boundary prev s then map_option ((#) []) (rmatch as ic prev s) else None)"

definition match_at :: "regex \<Rightarrow> int option \<Rightarrow> ustr \<Rightarrow> ustr list option" where
  "match_at r prev s = first_some (\<lambda>as. rmatch as (fst r) prev s) (snd r)"

text \<open>
  \<open>re.search\<close>: the leftmost position at which the pattern matches. The result is the
  text before the match, the pieces of the match and the text after it.
\<close>

fun search_from :: "regex \<Rightarrow> int option \<Rightarrow> ustr \<Rightarrow> (ustr \<times> ustr list \<times> ustr) option" where
  "search_from r prev [] =
     (case match_at r prev [] of Some ps \<Rightarrow> Some ([], ps, []) | None \<Rightarrow> None)"
| "search_from r prev (c # cs) =
     (case match_at r prev (c # cs) of
        Some ps \<Rightarrow> Some ([], ps, drop (length (concat ps)) (c # cs))
      | None \<Rightarrow>
          (case search_from r (Some c) cs of
             Some (b, ps, a) \<Rightarrow> Some (c # b, ps, a)
           | None \<Rightarrow> None))"

definition re_search :: "regex \<Rightarrow> ustr \<Rightarrow> ustr list option" where
  "re_search r s = map_option (\<lambda>(b, ps, a). ps) (search_from r None s)"

definition re_found :: "regex \<Rightarrow> ustr \<Rightarrow> bool" where
  "re_found r s = (re_search r s \<noteq> None)"

text \<open>
  The successive non-overlapping matches, each with the text that precedes it, and the
  text after the last match. Every pattern that the parsers iterate matches at least
  one character; an empty match ends the iteration here.
\<close>

function re_iter :: "regex \<Rightarrow> int option \<Rightarrow> ustr \<Rightarrow> (ustr \<times> ustr list) list \<times> ustr" where
  "re_iter r prev s =
     (case search_from r prev s of
        None \<Rightarrow> ([], s)
      | Some (b, ps, a) \<Rightarrow>
          if concat ps = [] \<or> s = [] then ([], s)
          else (let rest = re_iter r (Some (last (concat ps)))
                             (drop (length b + length (concat ps)) s)
                in ((b, ps) # fst rest, snd rest)))"
  by pat_completeness auto
termination
  by (relation "measure (\<lambda>(r, prev, s). length s)") auto

text \<open>\<open>re.findall\<close> for a pattern whose only group starts at element \<open>k\<close>.\<close>

definition re_findall :: "regex \<Rightarrow> nat \<Rightarrow> ustr \<Rightarrow> ustr list" where
  "re_findall r k s = map (\<lambda>(b, ps). concat (drop k ps)) (fst (re_iter r None s))"

text \<open>\<open>re.sub(pattern, '', s)\<close>.\<close>

definition re_delete :: "regex \<Rightarrow> ustr \<Rightarrow> ustr" where
  "re_delete r s = (let it = re_iter r None s in concat (map fst (fst it)) @ snd it)"

section \<open>Dates\<close>

text \<open>
  A \<open>datetime\<close> produced by \<open>strptime\<close> from a date-only format is a calendar date at
  midnight, so it is modelled by its year, month and day; two of them compare as these
  triples do. The text that \<open>strftime\<close> renders from a date is determined by the date
  and is represented by the date itself.
\<close>

record date =
  year :: int
  month :: int
  day :: int

definition date_key :: "date \<Rightarrow> int \<times> int \<times> int" where
  "date_key d = (year d, month d, day d)"

definition is_leap :: "int \<Rightarrow> bool" where
  "is_leap y = (y mod 4 = 0 \<and> (y mod 100 \<noteq> 0 \<or> y mod 400 = 0))"

definition days_in_month :: "int \<Rightarrow> int \<Rightarrow> int" where
  "days_in_month y m =
     (if m = 2 then (if is_leap y then 29 else 28)
      else if m = 4 \<or> m = 6 \<or> m = 9 \<or> m = 11 then 30 else 31)"

definition valid_date :: "date \<Rightarrow> bool" where
  "valid_date d = (1 \<le> year d \<and> year d \<le> 9999 \<and> 1 \<le> month d \<and> month d \<le> 12
     \<and> 1 \<le> day d \<and> day d \<le> days_in_month (year d) (month d))"

text \<open>\<open>d + timedelta(days=1)\<close> and \<open>d - timedelta(days=1)\<close> on the date part.\<close>

definition next_day :: "date \<Rightarrow> date" where
  "next_day d =
     (if day d < days_in_month (year d) (month d) then d\<lparr>day := day d + 1\<rparr>
      else if month d < 12 then d\<lparr>month := month d + 1, day := 1\<rparr>
      else \<lparr>year = year d + 1, month = 1, day = 1\<rparr>)"

definition prev_day :: "date \<Rightarrow> date" where
  "prev_day d =
     (if 1 < day d then d\<lparr>day := day d - 1\<rparr>
      else if 1 < month d
      then d\<lparr>month := month d - 1, day := days_in_month (year d) (month d - 1)\<rparr>
      else \<lparr>year = year d - 1, month = 12, day = 31\<rparr>)"

fun add_days :: "nat \<Rightarrow> date \<Rightarrow> date" where
  "add_days 0 d = d"
| "add_days (Suc n) d = add_days n (next_day d)"

fun sub_days :: "nat \<Rightarrow> date \<Rightarrow> date" where
  "sub_days 0 d = d"
| "sub_days (Suc n) d = sub_days n (prev_day d)"

subsection \<open>\<open>datetime.strptime\<close>\<close>

text \<open>
  The directives that the parsers' formats use. \<open>strptime\<close> turns the format into a
  case-insensitive regular expression, matches it at the start of the string, fails when
  text is left over, and builds the date, which fails when the day does not exist.
\<close>

datatype directive = Fd | Fm | FY | Fy | Fb | FB | Fch int | Fsp

definition nonzero_digits :: ustr where
  "nonzero_digits = U ''123456789''"

definition all_digits :: ustr where
  "all_digits = U ''0123456789''"

definition day_forms :: "ustr list" where
  "day_forms = [U ''30'', U ''31''] @ [[a, b]. a \<leftarrow> U ''12'', b \<leftarrow> all_digits]
     @ [[48, b]. b \<leftarrow> nonzero_digits] @ [[b]. b \<leftarrow> nonzero_digits]
     @ [[32, b]. b \<leftarrow> nonzero_digits]"

definition month_forms :: "ustr list" where
  "month_forms = [U ''10'', U ''11'', U ''12''] @ [[48, b]. b \<leftarrow> nonzero_digits]
     @ [[b]. b \<leftarrow> nonzero_digits]"

definition month_abbrs :: "ustr list" where
  "month_abbrs = [U ''jan'', U ''feb'', U ''mar'', U ''apr'', U ''may'', U ''jun'',
     U ''jul'', U ''aug'', U ''sep'', U ''oct'', U ''nov'', U ''dec'']"

definition month_names :: "ustr list" where
  "month_names = [U ''january'', U ''february'', U ''march'', U ''april'', U ''may'',
     U ''june'', U ''july'', U ''august'', U ''september'', U ''october'', U ''november'',
     U ''december'']"

text \<open>The names as the expression lists them: longest first, otherwise in calendar order.\<close>

definition month_names_by_length :: "ustr list" where
  "month_names_by_length = [U ''september'', U ''february'', U ''november'', U ''december'',
     U ''january'', U ''october'', U ''august'', U ''march'', U ''april'', U ''june'',
     U ''july'', U ''may'']"

fun directive_atom :: "directive \<Rightarrow> atom" where
  "directive_atom Fd = OneOf day_forms"
| "directive_atom Fm = OneOf month_forms"
| "directive_atom FY = Rep is_digit 4 (Some 4)"
| "directive_atom Fy = Rep is_digit 2 (Some 2)"
| "directive_atom Fb = OneOf month_abbrs"
| "directive_atom FB = OneOf month_names_by_length"
| "directive_atom (Fch c) = Lit [c]"
| "directive_atom Fsp = Rep is_space 1 None"

fun index_of :: "'a \<Rightarrow> 'a list \<Rightarrow> int" where
  "index_of x [] = 0"
| "index_of x (y # ys) = (if x = y then 0 else 1 + index_of x ys)"

fun set_field :: "directive \<times> ustr \<Rightarrow> date \<Rightarrow> date" where
  "set_field (Fd, p) d = d\<lparr>day := digits_val (filter is_digit p)\<rparr>"
| "set_field (Fm, p) d = d\<lparr>month := digits_val p\<rparr>"
| "set_field (FY, p) d = d\<lparr>year := digits_val p\<rparr>"
| "set_field (Fy, p) d =
     d\<lparr>year := (if digits_val p \<le> 68 then 2000 + digits_val p else 1900 + digits_val p)\<rparr>"
| "set_field (Fb, p) d = d\<lparr>month := 1 + index_of (lower p) month_abbrs\<rparr>"
| "set_field (FB, p) d = d\<lparr>month := 1 + index_of (lower p) month_names\<rparr>"
| "set_field (Fch c, p) d = d"
| "set_field (Fsp, p) d = d"

definition strptime :: "ustr \<Rightarrow> directive list \<Rightarrow> date option" where
  "strptime s fmt =
     (case rmatch (map directive_atom fmt) True None s of
        None \<Rightarrow> None
      | Some ps \<Rightarrow>
          if length (concat ps) \<noteq> length s then None
          else (let d = foldr set_field (zip fmt ps) \<lparr>year = 1900, month = 1, day = 1\<rparr>
                in if valid_date d then Some d else None))"

definition slash :: int where "slash = 47"
definition dash :: int where "dash = 45"
definition comma :: int where "comma = 44"
definition dot :: int where "dot = 46"

section \<open>Transactions and rows\<close>

text \<open>
  A transaction is a Python dictionary. Its keys \<open>date\<close>, \<open>description\<close>, \<open>amount\<close>,
  \<open>type\<close>, \<open>bank\<close>, \<open>category\<close> and \<open>raw_data\<close> are the fields below; a key that a
  parser does not set, or sets to \<open>None\<close>, is \<open>None\<close>. The keys \<open>month\<close>,
  \<open>formatted_date\<close> and \<open>formatted_amount\<close> hold renderings of the date and the
  amount and are not represented. Amounts are exact rationals.

  A cell of a row is a string, or another value of which the parsers read three things:
  whether pandas counts it as missing, its truth value and its \<open>str()\<close>.
\<close>

datatype cell = Str ustr | Val bool bool ustr

fun isna :: "cell \<Rightarrow> bool" where
  "isna (Str s) = False"
| "isna (Val na t s) = na"

fun truthy :: "cell \<Rightarrow> bool" where
  "truthy (Str s) = (s \<noteq> [])"
| "truthy (Val na t s) = t"

fun to_str :: "cell \<Rightarrow> ustr" where
  "to_str (Str s) = s"
| "to_str (Val na t s) = s"

type_synonym row_dict = "(ustr \<times> cell) list"

record txn =
  date :: "date option"
  description :: ustr
  amount :: "rat option"
  txn_type :: ustr
  bank :: "ustr option"
  category :: "ustr option"
  raw_data :: "row_dict option"

text \<open>A dictionary keeps its keys in insertion order; storing under a key that exists
  replaces the value in place.\<close>

fun dict_set :: "'k \<Rightarrow> 'v \<Rightarrow> ('k \<times> 'v) list \<Rightarrow> ('k \<times> 'v) list" where
  "dict_set k v [] = [(k, v)]"
| "dict_set k v ((k', v') # kvs) =
     (if k = k' then (k, v) # kvs else (k', v') # dict_set k v kvs)"

definition py_dict :: "('k \<times> 'v) list \<Rightarrow> ('k \<times> 'v) list" where
  "py_dict kvs = foldl (\<lambda>d (k, v). dict_set k v d) [] kvs"

section \<open>\<open>AdvancedBankStatementParser\<close>\<close>

definition ws_star :: atom where
  "ws_star = Rep is_space 0 None"

definition BANK_PATTERNS :: "(ustr \<times> regex) list" where
  "BANK_PATTERNS =
     [(U ''HDFC'', (True, [[Lit (U ''HDFC''), ws_star, Lit (U ''BANK'')],
                           [Lit (U ''hdfc''), ws_star, Lit (U ''bank'')]])),
      (U ''ICICI'', (True, [[Lit (U ''ICICI''), ws_star, Lit (U ''BANK'')],
                            [Lit (U ''icici''), ws_star, Lit (U ''bank'')]])),
      (U ''SBI'', (True, [[Lit (U ''STATE''), ws_star, Lit (U ''BANK''), ws_star,
                           Lit (U ''OF''), ws_star, Lit (U ''INDIA'')],
                          [Lit (U ''SBI'')]])),
      (U ''AXIS'', (True, [[Lit (U ''AXIS''), ws_star, Lit (U ''BANK'')],
                           [Lit (U ''axis''), ws_star, Lit (U ''bank'')]])),
      (U ''KOTAK'', (True, [[Lit (U ''KOTAK''), ws_star, Lit (U ''MAHINDRA''), ws_star,
                             Lit (U ''BANK'')],
                            [Lit (U ''kotak'')]]))]"

definition words :: "string list \<Rightarrow> atom list list" where
  "words ws = map (\<lambda>w. [Lit (U w)]) ws"

definition CATEGORY_PATTERNS :: "(ustr \<times> regex) list" where
  "CATEGORY_PATTERNS =
     [(U ''food_dining'', (False, words [''SWIGGY'', ''ZOMATO'', ''DOMINOS'', ''PIZZA'',
         ''RESTAURANT'', ''CAFE'', ''HOTEL'', ''FOOD'', ''DINING''])),
      (U ''groceries'', (False, words [''BIGBASKET'', ''GROFERS'', ''DMart'', ''RELIANCE'',
         ''FRESH'', ''GROCERY'', ''SUPERMARKET'', ''WALMART''])),
      (U ''fuel'', (False, words [''PETROL'', ''DIESEL'', ''FUEL'', ''HP'', ''BPCL'', ''IOCL'',
         ''SHELL''] @ [[Lit (U ''BHARAT''), ws_star, Lit (U ''PETROLEUM'')]])),
      (U ''utilities'', (False, words [''ELECTRICITY'', ''WATER'', ''GAS'', ''BROADBAND'',
         ''INTERNET'', ''MOBILE'', ''TELECOM'', ''AIRTEL'', ''JIO'', ''VI''])),
      (U ''entertainment'', (False, [[Lit (U ''NETFLIX'')],
         [Lit (U ''AMAZON''), ws_star, Lit (U ''PRIME'')]]
         @ words [''HOTSTAR'', ''SPOTIFY'', ''BOOKMYSHOW'', ''CINEMA'', ''MOVIE''])),
      (U ''transportation'', (False, words [''UBER'', ''OLA'', ''METRO'', ''BUS'', ''RAILWAY'',
         ''IRCTC'', ''AUTO'', ''TAXI'', ''TRANSPORT''])),
      (U ''shopping'', (False, words [''AMAZON'', ''FLIPKART'', ''MYNTRA'', ''SHOPPING'',
         ''MALL'', ''STORE'', ''RETAIL''])),
      (U ''medical'', (False, words [''HOSPITAL'', ''MEDICAL'', ''PHARMACY'', ''APOLLO'',
         ''DOCTOR'', ''HEALTH'', ''MEDICINE''])),
      (U ''education'', (False, words [''SCHOOL'', ''COLLEGE'', ''UNIVERSITY'', ''EDUCATION'',
         ''COURSE'', ''TRAINING'', ''TUITION''])),
      (U ''investment'', (False, [[Lit (U ''MUTUAL''), ws_star, Lit (U ''FUND'')]]
         @ words [''SIP'', ''INSURANCE'', ''INVESTMENT'', ''ZERODHA'', ''GROWW'', ''UPSTOX''])),
      (U ''transfer'', (False, words [''TRANSFER'', ''NEFT'', ''RTGS'', ''IMPS'', ''UPI'',
         ''PAYTM'', ''PHONEPE'', ''GPAY'', ''WALLET''])),
      (U ''salary'', (False, [[Lit (U ''SALARY'')],
         [Lit (U ''SAL''), ws_star, Lit (U ''CREDIT'')]]
         @ words [''PAYROLL'', ''WAGES'', ''INCOME''])),
      (U ''bank_charges'', (False, words [''CHARGES'', ''FEE'', ''PENALTY'', ''INTEREST'',
         ''MAINTENANCE'', ''SERVICE''])),
      (U ''cash_withdrawal'', (False, [[Lit (U ''ATM''), ws_star, Lit (U ''WDL'')],
         [Lit (U ''CASH''), ws_star, Lit (U ''WITHDRAWAL'')]]
         @ words [''ATM'', ''WITHDRAWAL''])),
      (U ''others'', (False, [[Rep (\<lambda>c. c \<noteq> newline) 0 None]]))]"

text \<open>\<open>detect_bank\<close>: the first bank, in the order of the table, whose name pattern is
  found in the upper-cased text.\<close>

fun first_match :: "(ustr \<times> regex) list \<Rightarrow> ustr \<Rightarrow> ustr option" where
  "first_match [] s = None"
| "first_match ((name, pattern) # rest) s =
     (if re_found pattern s then Some name else first_match rest s)"

definition detect_bank :: "ustr \<Rightarrow> ustr option" where
  "detect_bank text = first_match BANK_PATTERNS (upper text)"

definition categorize_transaction :: "ustr \<Rightarrow> ustr" where
  "categorize_transaction descr =
     (case first_match CATEGORY_PATTERNS (upper descr) of
        Some cat \<Rightarrow> cat
      | None \<Rightarrow> U ''others'')"

subsection \<open>Dates and amounts\<close>

definition date_formats :: "directive list list" where
  "date_formats =
     [[Fd, Fch slash, Fm, Fch slash, FY], [Fd, Fch dash, Fm, Fch dash, FY],
      [FY, Fch dash, Fm, Fch dash, Fd], [Fd, Fsp, Fb, Fsp, FY],
      [Fd, Fch dash, Fb, Fch dash, FY], [Fd, Fch slash, Fm, Fch slash, Fy],
      [Fm, Fch slash, Fd, Fch slash, FY], [FY, Fch slash, Fm, Fch slash, Fd]]"

definition parse_date :: "ustr \<Rightarrow> date option" where
  "parse_date date_str = first_some (strptime (strip date_str)) date_formats"

text \<open>\<open>_extract_amount\<close>: the first cell, patterns first and keys second, whose key
  contains the pattern, that is true and that reads as an amount.\<close>

definition cell_amount :: "ustr \<Rightarrow> ustr \<times> cell \<Rightarrow> rat option" where
  "cell_amount pattern kv =
     (if contains pattern (lower (fst kv)) \<and> truthy (snd kv)
      then (let amount_str =
                  strip (remove_char dash (remove_char rupee (remove_char comma (to_str (snd kv)))))
            in if amount_str \<noteq> [] \<and> isdigit (remove_char dot amount_str)
               then py_float amount_str else None)
      else None)"

definition extract_amount :: "row_dict \<Rightarrow> ustr list \<Rightarrow> rat option" where
  "extract_amount row patterns =
     first_some (\<lambda>pattern. first_some (cell_amount pattern) row) patterns"

text \<open>The first true cell whose key contains the pattern.\<close>

definition find_cell :: "ustr \<Rightarrow> row_dict \<Rightarrow> cell option" where
  "find_cell pattern row =
     map_option snd (find (\<lambda>kv. contains pattern (lower (fst kv)) \<and> truthy (snd kv)) row)"

text \<open>The two loops of \<open>_extract_transaction_from_dict\<close> that look for the date and
  for the description, and its choice between the credit and the debit amount.\<close>

definition find_date :: "row_dict \<Rightarrow> date option" where
  "find_date row =
     first_some
       (\<lambda>pattern. case find_cell pattern row of
                     None \<Rightarrow> None
                   | Some v \<Rightarrow> parse_date (to_str v))
       [U ''date'', U ''txn date'', U ''transaction date'', U ''value date'']"

definition find_description :: "row_dict \<Rightarrow> ustr" where
  "find_description row =
     (case first_some
             (\<lambda>pattern. case find_cell pattern row of
                           None \<Rightarrow> None
                         | Some v \<Rightarrow>
                             if strip (to_str v) = [] then None else Some (strip (to_str v)))
             [U ''description'', U ''particulars'', U ''narration'', U ''details''] of
        None \<Rightarrow> []
      | Some d \<Rightarrow> d)"

definition positive :: "rat option \<Rightarrow> bool" where
  "positive x = (case x of None \<Rightarrow> False | Some v \<Rightarrow> v \<noteq> 0 \<and> 0 < v)"

definition extract_transaction_from_dict :: "row_dict \<Rightarrow> ustr option \<Rightarrow> txn option" where
  "extract_transaction_from_dict row bnk =
     (case find_date row of
        None \<Rightarrow> None
      | Some date_value \<Rightarrow>
          (let descr = find_description row;
               debit = extract_amount row [U ''debit'', U ''withdrawal'', U ''dr''];
               credit = extract_amount row [U ''credit'', U ''deposit'', U ''cr'']
           in if positive credit
              then Some \<lparr>date = Some date_value, description = descr, amount = credit,
                     txn_type = U ''credit'', bank = bnk, category = None,
                     raw_data = Some row\<rparr>
              else if positive debit
              then Some \<lparr>date = Some date_value, description = descr, amount = debit,
                     txn_type = U ''debit'', bank = bnk, category = None,
                     raw_data = Some row\<rparr>
              else None))"

subsection \<open>Tables and data frames\<close>

text \<open>A table of \<open>pdfplumber\<close> is a list of rows of cells, each a string or \<open>None\<close>.
  \<open>cell_text\<close> is \<open>str(cell).strip() if cell else ''\<close>.\<close>

definition cell_text :: "ustr option \<Rightarrow> ustr" where
  "cell_text c = (case c of None \<Rightarrow> [] | Some s \<Rightarrow> if s = [] then [] else strip s)"

definition extract_transaction_from_row ::
  "ustr option list \<Rightarrow> ustr list \<Rightarrow> ustr option \<Rightarrow> txn option" where
  "extract_transaction_from_row row headers bnk =
     extract_transaction_from_dict (py_dict (zip headers (map (\<lambda>c. Str (cell_text c)) row))) bnk"

definition process_table_data :: "ustr option list list \<Rightarrow> ustr option \<Rightarrow> txn list" where
  "process_table_data table bnk =
     (case table of
        header_row # data_row # rest \<Rightarrow>
          List.map_filter
            (\<lambda>row. if 3 \<le> length row
                   then extract_transaction_from_row row (map cell_text header_row) bnk
                   else None)
            (data_row # rest)
      | _ \<Rightarrow> [])"

text \<open>A data frame: the \<open>str()\<close> of its column labels and its rows of cells.\<close>

record dataframe =
  columns :: "ustr list"
  rows :: "cell list list"

definition process_dataframe :: "dataframe \<Rightarrow> ustr option \<Rightarrow> txn list" where
  "process_dataframe df bnk =
     List.map_filter
       (\<lambda>row. extract_transaction_from_dict (py_dict (zip (map strip (columns df)) row)) bnk)
       (filter (\<lambda>row. \<not> list_all isna row) (rows df))"

fun join_with :: "ustr \<Rightarrow> ustr list \<Rightarrow> ustr" where
  "join_with sep [] = []"
| "join_with sep [x] = x"
| "join_with sep (x # y # ys) = x @ sep @ join_with sep (y # ys)"

subsection \<open>The line-pattern extractor\<close>

definition is_date_sep :: "int \<Rightarrow> bool" where
  "is_date_sep c = (c = slash \<or> c = dash)"

definition date_pattern :: regex where
  "date_pattern =
     (False, [[WordB, Rep is_digit 1 (Some 2), Rep is_date_sep 1 (Some 1),
               Rep is_digit 1 (Some 2), Rep is_date_sep 1 (Some 1),
               Rep is_digit 2 (Some 4), WordB]])"

definition amount_pattern :: regex where
  "amount_pattern =
     (False, [[Rep (\<lambda>c. c = rupee \<or> is_space c) 0 None,
               Rep (\<lambda>c. is_digit c \<or> c = comma) 1 None,
               Rep (\<lambda>c. c = dot) 0 (Some 1), Rep is_digit 0 None]])"

definition clean_amount :: "ustr \<Rightarrow> rat option" where
  "clean_amount m =
     (let c = strip (remove_char rupee (remove_char comma m))
      in if isdigit (remove_char dot c) then py_float c else None)"

definition line_amounts :: "ustr \<Rightarrow> rat list" where
  "line_amounts line = List.map_filter clean_amount (re_findall amount_pattern 0 line)"

text \<open>\<open>max\<close> of a non-empty list.\<close>

fun py_max :: "rat list \<Rightarrow> rat" where
  "py_max [] = 0"
| "py_max (x # xs) = fold max xs x"

definition parse_line :: "ustr \<Rightarrow> ustr option \<Rightarrow> txn option" where
  "parse_line raw bnk =
     (let line = strip raw in
      if line = [] then None
      else (case re_search date_pattern line of
              None \<Rightarrow> None
            | Some ps \<Rightarrow>
                (case parse_date (concat ps) of
                   None \<Rightarrow> None
                 | Some date_obj \<Rightarrow>
                     if line_amounts line = [] then None
                     else Some \<lparr>date = Some date_obj, description = line,
                            amount = Some (py_max (line_amounts line)),
                            txn_type =
                              (if any_in [U ''CREDIT'', U ''DEPOSIT'', U ''CR''] (upper line)
                               then U ''credit'' else U ''debit''),
                            bank = bnk, category = None, raw_data = None\<rparr>)))"

definition parse_text_with_regex :: "ustr \<Rightarrow> ustr option \<Rightarrow> txn list" where
  "parse_text_with_regex text bnk =
     List.map_filter (\<lambda>line. parse_line line bnk) (split_on newline text)"

subsection \<open>Cleaning and sorting\<close>

text \<open>
  \<open>_clean_and_categorize_transactions\<close> skips a record whose date or amount is missing
  or whose amount is zero, sets the category of the others and sorts them with
  \<open>list.sort(key=date, reverse=True)\<close>, which is stable: records of one date keep their
  order.
\<close>

definition keep :: "txn \<Rightarrow> bool" where
  "keep t = (date t \<noteq> None \<and> amount t \<noteq> None \<and> amount t \<noteq> Some 0)"

fun clean_loop :: "txn list \<Rightarrow> txn list" where
  "clean_loop [] = []"
| "clean_loop (t # ts) =
     (if \<not> keep t then clean_loop ts
      else t\<lparr>category := Some (categorize_transaction (description t))\<rparr> # clean_loop ts)"

definition sort_date :: "txn \<Rightarrow> int \<times> int \<times> int" where
  "sort_date t = (case date t of Some d \<Rightarrow> date_key d | None \<Rightarrow> (0, 0, 0))"

definition sort_reverse :: "('a \<Rightarrow> 'k::linorder) \<Rightarrow> 'a list \<Rightarrow> 'a list" where
  "sort_reverse f xs = rev (sort_key f (rev xs))"

definition clean_and_categorize_transactions :: "txn list \<Rightarrow> txn list" where
  "clean_and_categorize_transactions transactions = sort_reverse sort_date (clean_loop transactions)"

subsection \<open>The statement file and the parse result\<close>

text \<open>
  What the parser reads of a file comes through libraries (\<open>pathlib\<close>, \<open>pdfplumber\<close>,
  \<open>camelot\<close>, \<open>fitz\<close> with \<open>pytesseract\<close>, \<open>pandas\<close>, \<open>PIL\<close>). A file is modelled by
  what each of them returns for it; \<open>Inl\<close> is an exception raised by the library. The
  result of a parse is a dictionary with the keys \<open>transactions\<close>, \<open>method\<close>, \<open>error\<close> and
  \<open>sheet\<close>.
\<close>

datatype exn = Exn ustr

fun message :: "exn \<Rightarrow> ustr" where
  "message (Exn m) = m"

record page =
  page_text :: "ustr option"
  page_tables :: "ustr option list list list"

datatype csv_read = UnicodeDecodeError | ReadFailure exn | Frame dataframe

record statement_file =
  file_suffix :: ustr
  pdfplumber_pages :: "exn + page list"
  camelot_lattice :: "exn + dataframe list"
  camelot_stream :: "exn + dataframe list"
  ocr_page_texts :: "exn + ustr list"
  read_csv :: "ustr \<Rightarrow> csv_read"
  excel_sheets :: "exn + (ustr \<times> (exn + dataframe)) list"
  image_text :: "exn + ustr"

datatype pyval = Txns "txn list" | Text ustr

type_synonym result = "(string \<times> pyval) list"

definition error_result :: "ustr \<Rightarrow> result" where
  "error_result m = [(''error'', Text m), (''transactions'', Txns [])]"

definition method_result :: "txn list \<Rightarrow> string \<Rightarrow> result" where
  "method_result ts m = [(''transactions'', Txns ts), (''method'', Text (U m))]"

text \<open>The calls of extraction strategies that a parse makes, in the order it makes
  them, each with what the strategy returned.\<close>

datatype strategy =
  TableExtraction | LinePattern | CamelotTables | OCR | IndianBankFormat | AIExtractor

datatype outcome = Returned "txn list" | Raised exn

type_synonym call = "strategy \<times> outcome"

subsection \<open>The strategies for a PDF\<close>

text \<open>\<open>_parse_pdf_with_pdfplumber\<close>: the loop over the pages carries the transactions
  of the tables, the detected bank and the text read so far.\<close>

fun read_pages ::
  "page list \<Rightarrow> txn list \<times> ustr option \<times> ustr \<Rightarrow> txn list \<times> ustr option \<times> ustr" where
  "read_pages [] st = st"
| "read_pages (p # ps) (transactions, detected_bank, full_text) =
     (case page_text p of
        None \<Rightarrow> read_pages ps (transactions, detected_bank, full_text)
      | Some t \<Rightarrow>
          if t = [] then read_pages ps (transactions, detected_bank, full_text)
          else (let db = (case detected_bank of None \<Rightarrow> detect_bank t | Some b \<Rightarrow> Some b)
                in read_pages ps
                     (transactions
                        @ concat (map (\<lambda>table. if 1 < length table
                                               then process_table_data table db else [])
                                    (page_tables p)),
                      db, full_text @ t)))"

definition parse_pdf_with_pdfplumber_traced :: "page list \<Rightarrow> txn list \<times> call list" where
  "parse_pdf_with_pdfplumber_traced pages =
     (case read_pages pages ([], None, []) of
        (transactions, detected_bank, full_text) \<Rightarrow>
          if transactions = [] \<and> full_text \<noteq> []
          then (let r = clean_and_categorize_transactions
                          (parse_text_with_regex full_text detected_bank)
                in (r, [(TableExtraction, Returned []), (LinePattern, Returned r)]))
          else (let r = clean_and_categorize_transactions transactions
                in (r, [(TableExtraction, Returned r)])))"

definition parse_pdf_with_pdfplumber :: "page list \<Rightarrow> txn list" where
  "parse_pdf_with_pdfplumber pages = fst (parse_pdf_with_pdfplumber_traced pages)"

fun read_camelot_tables ::
  "dataframe list \<Rightarrow> txn list \<times> ustr option \<Rightarrow> txn list \<times> ustr option" where
  "read_camelot_tables [] st = st"
| "read_camelot_tables (df # dfs) (transactions, detected_bank) =
     (case rows df of
        [] \<Rightarrow> read_camelot_tables dfs (transactions, detected_bank)
      | first_row # _ \<Rightarrow>
          if 4 \<le> length (columns df)
          then (let db = (case detected_bank of
                            None \<Rightarrow> detect_bank (join_with (U '' '') (map to_str first_row))
                          | Some b \<Rightarrow> Some b)
                in read_camelot_tables dfs (transactions @ process_dataframe df db, db))
          else read_camelot_tables dfs (transactions, detected_bank))"

definition parse_pdf_with_camelot :: "statement_file \<Rightarrow> txn list" where
  "parse_pdf_with_camelot f =
     (case camelot_lattice f of
        Inl e \<Rightarrow> []
      | Inr lattice \<Rightarrow>
          (case (if lattice = [] then camelot_stream f else Inr lattice) of
             Inl e \<Rightarrow> []
           | Inr tables \<Rightarrow>
               clean_and_categorize_transactions (fst (read_camelot_tables tables ([], None)))))"

definition parse_pdf_with_ocr :: "statement_file \<Rightarrow> txn list" where
  "parse_pdf_with_ocr f =
     (case ocr_page_texts f of
        Inl e \<Rightarrow> []
      | Inr texts \<Rightarrow>
          (let full_text = concat (map (\<lambda>t. t @ [newline]) texts)
           in clean_and_categorize_transactions
                (parse_text_with_regex full_text (detect_bank full_text))))"

definition parse_pdf_statement_traced :: "statement_file \<Rightarrow> result \<times> call list" where
  "parse_pdf_statement_traced f =
     (case pdfplumber_pages f of
        Inl e \<Rightarrow> (error_result (message e), [(TableExtraction, Raised e)])
      | Inr pages \<Rightarrow>
          (case parse_pdf_with_pdfplumber_traced pages of
             (t1, calls) \<Rightarrow>
               if t1 \<noteq> [] then (method_result t1 ''pdfplumber'', calls)
               else (let t2 = parse_pdf_with_camelot f in
                     if t2 \<noteq> []
                     then (method_result t2 ''camelot'', calls @ [(CamelotTables, Returned t2)])
                     else (let t3 = parse_pdf_with_ocr f in
                           (method_result t3 ''ocr'',
                            calls @ [(CamelotTables, Returned t2), (OCR, Returned t3)])))))"


subsection \<open>The other formats\<close>







subsection \<open>\<open>parse_statement\<close>\<close>



section \<open>\<open>GeminiPDFParser\<close>\<close>

text \<open>
  The answer of the generative service, after \<open>json.loads\<close>, is a JSON value; \<open>Inl\<close> is
  an exception of the service or of the decoder. An object holds its items with distinct
  keys. The \<open>str()\<close> of a value that is not a string is a parameter \<open>render\<close> of the
  model. A transaction built from an entry keeps the category of the entry, or its
  rendering when it is not a string.
\<close>

datatype jval =
    JNull
  | JBool bool
  | JNum rat
  | JStr ustr
  | JArr "jval list"
  | JObj "(ustr \<times> jval) list"

text \<open>\<open>for txn in transactions_raw\<close>: a list gives its elements, an object its keys, a
  string its characters; any other value is not iterable.\<close>

fun json_items :: "jval \<Rightarrow> jval list option" where
  "json_items (JArr xs) = Some xs"
| "json_items (JObj kvs) = Some (map (\<lambda>kv. JStr (fst kv)) kvs)"
| "json_items (JStr s) = Some (map (\<lambda>c. JStr [c]) s)"
| "json_items v = None"

text \<open>\<open>float(v)\<close>: \<open>None\<close> is \<open>ValueError\<close> or \<open>TypeError\<close>.\<close>

fun json_float :: "jval option \<Rightarrow> rat option" where
  "json_float (Some (JNum r)) = Some r"
| "json_float (Some (JBool b)) = Some (if b then 1 else 0)"
| "json_float (Some (JStr s)) = py_float s"
| "json_float v = None"

fun str_of :: "(jval \<Rightarrow> ustr) \<Rightarrow> jval \<Rightarrow> ustr" where
  "str_of render (JStr s) = s"
| "str_of render v = render v"

definition iso_format :: "directive list" where
  "iso_format = [FY, Fch dash, Fm, Fch dash, Fd]"

text \<open>
  The body of the loop of \<open>_extract_with_gemini\<close> for one entry: \<open>None\<close> is \<open>continue\<close>.
  An entry that is not an object fails the test of the keys or the subscript
  \<open>txn['date']\<close> and is skipped.
\<close>

definition validate_entry :: "(jval \<Rightarrow> ustr) \<Rightarrow> jval \<Rightarrow> txn option" where
  "validate_entry render entry =
     (case entry of
        JObj kvs \<Rightarrow>
          if \<not> list_all (\<lambda>k. k \<in> fst ` set kvs)
                 [U ''date'', U ''description'', U ''amount'', U ''type'']
          then None
          else (case map_of kvs (U ''date'') of
                  Some (JStr d) \<Rightarrow>
                    (case strptime d iso_format of
                       None \<Rightarrow> None
                     | Some date_obj \<Rightarrow>
                         (case json_float (map_of kvs (U ''amount'')) of
                            None \<Rightarrow> None
                          | Some a \<Rightarrow>
                              if a \<le> 0 then None
                              else (case map_of kvs (U ''type'') of
                                      Some (JStr ty) \<Rightarrow>
                                        if ty \<notin> set [U ''credit'', U ''debit''] then None
                                        else Some \<lparr>date = Some date_obj,
                                               description =
                                                 take 200
                                                   (case map_of kvs (U ''description'') of
                                                      Some v \<Rightarrow> str_of render v
                                                    | None \<Rightarrow> []),
                                               amount = Some a, txn_type = ty,
                                               bank = Some (U ''Extracted by AI''),
                                               category =
                                                 (case map_of kvs (U ''category'') of
                                                    Some v \<Rightarrow> Some (str_of render v)
                                                  | None \<Rightarrow> Some (U ''others'')),
                                               raw_data = None\<rparr>
                                    | _ \<Rightarrow> None)))
                | _ \<Rightarrow> None)
      | _ \<Rightarrow> None)"

definition extract_with_gemini :: "(jval \<Rightarrow> ustr) \<Rightarrow> exn + jval \<Rightarrow> txn list" where
  "extract_with_gemini render response =
     (case response of
        Inl e \<Rightarrow> []
      | Inr transactions_raw \<Rightarrow>
          (case json_items transactions_raw of
             None \<Rightarrow> []
           | Some entries \<Rightarrow> List.map_filter (validate_entry render) entries))"

record gemini_service =
  model_available :: bool
  gemini_text :: ustr
  response :: "exn + jval"
  render_value :: "jval \<Rightarrow> ustr"

definition gemini_parse_pdf :: "gemini_service \<Rightarrow> txn list" where
  "gemini_parse_pdf g =
     (if \<not> model_available g then []
      else if gemini_text g = [] \<or> length (strip (gemini_text g)) < 50 then []
      else extract_with_gemini (render_value g) (response g))"

section \<open>\<open>EnhancedPDFParser\<close>\<close>

definition two_digits :: atom where
  "two_digits = Rep is_digit 2 (Some 2)"

definition four_digits :: atom where
  "four_digits = Rep is_digit 4 (Some 4)"

definition one_sep :: atom where
  "one_sep = Rep is_date_sep 1 (Some 1)"

definition date_patterns :: "regex list" where
  "date_patterns =
     [(False, [[two_digits, one_sep, two_digits, one_sep, four_digits]]),
      (False, [[two_digits, one_sep, two_digits, one_sep, two_digits]]),
      (False, [[four_digits, one_sep, two_digits, one_sep, two_digits]])]"

definition mon_pattern :: regex where
  "mon_pattern =
     (True, [[Rep is_digit 1 (Some 2), Rep is_space 1 None,
              OneOf [U ''Jan'', U ''Feb'', U ''Mar'', U ''Apr'', U ''May'', U ''Jun'',
                     U ''Jul'', U ''Aug'', U ''Sep'', U ''Oct'', U ''Nov'', U ''Dec''],
              Rep is_space 1 None, four_digits]])"

definition digits_commas :: atom where
  "digits_commas = Rep (\<lambda>c. is_digit c \<or> c = comma) 1 None"

definition opt_dot :: atom where
  "opt_dot = Rep (\<lambda>c. c = dot) 0 (Some 1)"

text \<open>\<open>INR\s+([\d,]+\.?\d*)\<close>, case-insensitive; its group starts at element 2.\<close>

definition inr_pattern :: regex where
  "inr_pattern =
     (True, [[Lit (U ''INR''), Rep is_space 1 None, digits_commas, opt_dot,
              Rep is_digit 0 None]])"

text \<open>The three amount patterns, each with the element at which its group starts.\<close>

definition amount_patterns :: "(regex \<times> nat) list" where
  "amount_patterns =
     [((False, [[Rep (\<lambda>c. c = rupee) 0 (Some 1), ws_star, digits_commas, Lit [dot],
                 two_digits]]), 2),
      ((False, [[Lit (U ''Rs''), opt_dot, ws_star, digits_commas, Lit [dot], two_digits]]), 3),
      ((False, [[Lit (U ''INR''), ws_star, digits_commas, Lit [dot], two_digits]]), 2)]"

definition credit_keywords :: "ustr list" where
  "credit_keywords =
     [U ''credit'', U ''deposit'', U ''salary'', U ''transfer credit'', U ''neft cr'',
      U ''imps cr'', U ''rtgs cr'', U ''upi cr'', U ''refund'', U ''interest credited'']"

definition debit_keywords :: "ustr list" where
  "debit_keywords =
     [U ''debit'', U ''withdrawal'', U ''payment'', U ''transfer debit'', U ''neft dr'',
      U ''imps dr'', U ''rtgs dr'', U ''upi'', U ''atm'', U ''pos'', U ''emi'', U ''charges'']"

definition enhanced_date_formats :: "directive list list" where
  "enhanced_date_formats =
     [[Fd, Fch slash, Fm, Fch slash, FY], [Fd, Fch dash, Fm, Fch dash, FY],
      [Fd, Fch slash, Fm, Fch slash, Fy], [Fd, Fch dash, Fm, Fch dash, Fy],
      [FY, Fch slash, Fm, Fch slash, Fd], [FY, Fch dash, Fm, Fch dash, Fd],
      [FY, Fch slash, Fm, Fch slash, Fd], [FY, Fch dash, Fm, Fch dash, Fd],
      [Fd, Fsp, Fb, Fsp, FY], [Fd, Fsp, FB, Fsp, FY]]"

text \<open>\<open>EnhancedPDFParser._parse_date\<close>: \<open>None\<close> is the \<open>ValueError\<close> it raises.\<close>

definition enhanced_parse_date :: "ustr \<Rightarrow> date option" where
  "enhanced_parse_date date_str = first_some (strptime date_str) enhanced_date_formats"

definition positive_amount :: "ustr \<Rightarrow> rat option" where
  "positive_amount m =
     (case py_float (remove_char comma m) of
        None \<Rightarrow> None
      | Some a \<Rightarrow> if 0 < a then Some a else None)"

definition enhanced_amounts :: "ustr \<Rightarrow> rat list" where
  "enhanced_amounts line =
     (let inr = List.map_filter positive_amount (re_findall inr_pattern 2 line)
      in if inr \<noteq> [] then inr
         else concat (map (\<lambda>pk. List.map_filter positive_amount (re_findall (fst pk) (snd pk) line))
                        amount_patterns))"

definition enhanced_is_credit :: "ustr \<Rightarrow> bool" where
  "enhanced_is_credit line =
     (let is_credit = any_in credit_keywords (lower line);
          is_debit = any_in debit_keywords (lower line)
      in if \<not> is_credit \<and> \<not> is_debit
         then (if re_found (False, [[Lit (U ''-''), ws_star, Lit (U ''INR'')]]) line then False
               else re_found (False, [[Lit (U ''+''), ws_star, Lit (U ''INR'')]]) line)
         else is_credit)"

text \<open>\<open>s.split()\<close>: the maximal runs of characters that are not white space.\<close>

fun split_ws :: "ustr \<Rightarrow> ustr \<Rightarrow> ustr list" where
  "split_ws cur [] = (if cur = [] then [] else [rev cur])"
| "split_ws cur (c # cs) =
     (if is_space c then (if cur = [] then split_ws [] cs else rev cur # split_ws [] cs)
      else split_ws (c # cur) cs)"

definition strip_tokens :: "ustr \<Rightarrow> ustr" where
  "strip_tokens line =
     (let d1 = fold re_delete date_patterns line;
          d2 = re_delete mon_pattern d1;
          d3 = fold (\<lambda>pk. re_delete (fst pk)) amount_patterns d2;
          d4 = re_delete (True, [[Lit (U ''INR''), Rep is_space 1 None, digits_commas, opt_dot,
                                  Rep is_digit 0 None]]) d3;
          d5 = re_delete (False, [[Rep (\<lambda>c. c = dash \<or> c = 43) 1 (Some 1)]]) d4
      in strip (join_with (U '' '') (split_ws [] d5)))"

text \<open>\<open>EnhancedPDFParser._categorize_transaction\<close>.\<close>

definition enhanced_categorize :: "ustr \<Rightarrow> ustr" where
  "enhanced_categorize descr =
     (let desc_lower = lower descr in
      if any_in [U ''salary'', U ''pay'', U ''income''] desc_lower then U ''salary''
      else if any_in [U ''atm'', U ''cash'', U ''withdrawal''] desc_lower
      then U ''cash_withdrawal''
      else if any_in [U ''grocery'', U ''supermarket'', U ''food'', U ''swiggy'', U ''zomato'']
                desc_lower
      then U ''groceries''
      else if any_in [U ''fuel'', U ''petrol'', U ''gas'', U ''diesel''] desc_lower
      then U ''fuel''
      else if any_in [U ''restaurant'', U ''dining'', U ''cafe'', U ''hotel''] desc_lower
      then U ''food_dining''
      else if any_in [U ''electricity'', U ''water'', U ''utility'', U ''bill'', U ''rent'']
                desc_lower
      then U ''utilities''
      else if any_in [U ''medical'', U ''hospital'', U ''pharmacy'', U ''doctor''] desc_lower
      then U ''medical''
      else if any_in [U ''shopping'', U ''mall'', U ''store'', U ''amazon'', U ''flipkart'']
                desc_lower
      then U ''shopping''
      else if any_in [U ''transfer'', U ''neft'', U ''imps'', U ''rtgs'', U ''upi''] desc_lower
      then U ''transfer''
      else if any_in [U ''emi'', U ''loan'', U ''interest''] desc_lower then U ''loan''
      else U ''others'')"

text \<open>
  \<open>_extract_transaction_from_line\<close>. The variable \<open>mon_pattern\<close> is assigned only when
  none of the numeric date patterns is found; the function reads it when it strips the
  description, so for a line with a numeric date and an amount that read raises
  \<open>UnboundLocalError\<close>. \<open>Inr None\<close> is the return of \<open>None\<close>.
\<close>

definition unbound_local :: exn where
  "unbound_local = Exn (U ''local variable mon_pattern referenced before assignment'')"

definition extract_transaction_from_line :: "ustr \<Rightarrow> exn + txn option" where
  "extract_transaction_from_line line =
     (let numeric = first_some (\<lambda>p. map_option concat (re_search p line)) date_patterns;
          date_str = (case numeric of
                        Some d \<Rightarrow> Some d
                      | None \<Rightarrow> map_option concat (re_search mon_pattern line))
      in case date_str of
           None \<Rightarrow> Inr None
         | Some ds \<Rightarrow>
             (case enhanced_parse_date ds of
                None \<Rightarrow> Inr None
              | Some date_obj \<Rightarrow>
                  (case enhanced_amounts line of
                     [] \<Rightarrow> Inr None
                   | first_amount # _ \<Rightarrow>
                       if numeric \<noteq> None then Inl unbound_local
                       else (let ty = (if enhanced_is_credit line then U ''credit''
                                       else U ''debit'');
                                 stripped = strip_tokens line;
                                 descr = (if stripped = [] \<or> length stripped < 3
                                          then title ty @ U '' Transaction'' else stripped)
                             in Inr (Some \<lparr>date = Some date_obj, description = take 200 descr,
                                       amount = Some first_amount, txn_type = ty,
                                       bank = Some (U ''Indian Bank''),
                                       category = Some (enhanced_categorize descr),
                                       raw_data = None\<rparr>)))))"

fun parse_lines :: "ustr list \<Rightarrow> exn + txn list" where
  "parse_lines [] = Inr []"
| "parse_lines (l # ls) =
     (if strip l = [] \<or> length (strip l) < 20 then parse_lines ls
      else (case extract_transaction_from_line (strip l) of
              Inl e \<Rightarrow> Inl e
            | Inr None \<Rightarrow> parse_lines ls
            | Inr (Some t) \<Rightarrow>
                (case parse_lines ls of Inl e \<Rightarrow> Inl e | Inr ts \<Rightarrow> Inr (t # ts))))"

definition parse_transactions_from_text :: "ustr \<Rightarrow> exn + txn list" where
  "parse_transactions_from_text text = parse_lines (split_on newline text)"

text \<open>\<open>_get_sample_transactions\<close>; \<open>now\<close> is the date of \<open>datetime.now()\<close>.\<close>

definition sample_txn :: "date \<Rightarrow> nat \<Rightarrow> string \<Rightarrow> rat \<Rightarrow> string \<Rightarrow> string \<Rightarrow> txn" where
  "sample_txn base_date k descr a ty cat =
     \<lparr>date = Some (add_days k base_date), description = U descr, amount = Some a,
      txn_type = U ty, bank = None, category = Some (U cat), raw_data = None\<rparr>"

definition get_sample_transactions :: "date \<Rightarrow> txn list" where
  "get_sample_transactions now =
     (let base_date = sub_days 30 now in
      [sample_txn base_date 1 ''SALARY CREDIT - COMPANY NAME'' 75000 ''credit'' ''salary'',
       sample_txn base_date 2 ''UPI-SWIGGY-FOOD ORDER'' 450 ''debit'' ''food_dining'',
       sample_txn base_date 3 ''ATM CASH WITHDRAWAL'' 10000 ''debit'' ''cash_withdrawal'',
       sample_txn base_date 5 ''NEFT-RENT PAYMENT'' 25000 ''debit'' ''utilities'',
       sample_txn base_date 7 ''ELECTRICITY BILL PAYMENT'' 1800 ''debit'' ''utilities''])"

text \<open>
  What \<open>parse_pdf\<close> reads of an uploaded file: the availability flags of the module,
  the text that \<open>_extract_text_from_pdf\<close> returns (it catches its own exceptions), the
  specialised parser for statements of Indian Bank, and the generative parser that
  \<open>__init__\<close> keeps only when it is enabled, importable and available.
\<close>

record pdf_upload =
  PDF_AVAILABLE :: bool
  INDIAN_BANK_PARSER_AVAILABLE :: bool
  GEMINI_PARSER_AVAILABLE :: bool
  use_gemini_fallback :: bool
  extracted_text :: ustr
  indian_bank_parse_text :: "ustr \<Rightarrow> txn list"
  gemini :: gemini_service

definition gemini_parser :: "pdf_upload \<Rightarrow> gemini_service option" where
  "gemini_parser u =
     (if use_gemini_fallback u \<and> GEMINI_PARSER_AVAILABLE u \<and> model_available (gemini u)
      then Some (gemini u) else None)"

definition parse_pdf_traced :: "date \<Rightarrow> pdf_upload \<Rightarrow> txn list \<times> call list" where
  "parse_pdf_traced now u =
     (if \<not> PDF_AVAILABLE u then (get_sample_transactions now, [])
      else if extracted_text u = [] \<or> length (strip (extracted_text u)) < 100
      then (get_sample_transactions now, [])
      else (let indian =
                  (if (contains (U ''Indian Bank'') (extracted_text u)
                         \<or> contains (U ''ACCOUNT ACTIVITY'') (extracted_text u))
                        \<and> INDIAN_BANK_PARSER_AVAILABLE u
                   then [(IndianBankFormat,
                          Returned (indian_bank_parse_text u (extracted_text u)))]
                   else [])
            in if indian \<noteq> [] \<and> indian_bank_parse_text u (extracted_text u) \<noteq> []
               then (indian_bank_parse_text u (extracted_text u), indian)
               else (case parse_transactions_from_text (extracted_text u) of
                       Inl e \<Rightarrow>
                         (get_sample_transactions now, indian @ [(LinePattern, Raised e)])
                     | Inr transactions \<Rightarrow>
                         if transactions \<noteq> []
                         then (transactions, indian @ [(LinePattern, Returned transactions)])
                         else (case gemini_parser u of
                                 None \<Rightarrow>
                                   (get_sample_transactions now,
                                    indian @ [(LinePattern, Returned [])])
                               | Some g \<Rightarrow>
                                   if gemini_parse_pdf g \<noteq> []
                                   then (gemini_parse_pdf g,
                                         indian @ [(LinePattern, Returned []),
                                                   (AIExtractor, Returned (gemini_parse_pdf g))])
                                   else (get_sample_transactions now,
                                         indian @ [(LinePattern, Returned []),
                                                   (AIExtractor, Returned [])])))))"


section \<open>Predicates of the properties\<close>





text \<open>The place of a strategy in its chain: tables (or the Indian Bank format), then
  line patterns, then the second table reader, then OCR, then the AI extractor.\<close>

fun chain_rank :: "strategy \<Rightarrow> nat" where
  "chain_rank TableExtraction = 0"
| "chain_rank IndianBankFormat = 0"
| "chain_rank LinePattern = 1"
| "chain_rank CamelotTables = 2"
| "chain_rank OCR = 3"
| "chain_rank AIExtractor = 4"

definition fallback_chain :: "call list \<Rightarrow> bool" where
  "fallback_chain calls =
     (list_all (\<lambda>c. snd c = Returned []) (butlast calls)
      \<and> sorted_wrt (<) (map (\<lambda>c. chain_rank (fst c)) calls))"




section \<open>Example inputs\<close>



text \<open>A PDF without pages, tables or text, and a file that no library can read.\<close>

definition empty_pdf :: statement_file where
  "empty_pdf = \<lparr>file_suffix = U ''.pdf'', pdfplumber_pages = Inr [], camelot_lattice = Inr [],
     camelot_stream = Inr [], ocr_page_texts = Inr [], read_csv = (\<lambda>encoding. UnicodeDecodeError),
     excel_sheets = Inr [], image_text = Inr []\<rparr>"




definition bare_amount_line :: ustr where
  "bare_amount_line = U ''5 Oct 2025 INR 500''"

definition debit_row :: row_dict where
  "debit_row = [(U ''Date'', Str (U ''01/03/2024'')), (U ''Debit'', Str (U ''100.00''))]"







section \<open>Properties\<close>

subsection \<open>Order of the cleaned list\<close>






subsection \<open>The result of \<open>parse_statement\<close>\<close>










subsection \<open>The fallback chains\<close>

lemma fallback_chain_pdfplumber:
  "fallback_chain (snd (parse_pdf_with_pdfplumber_traced pages))"
  by (simp add: parse_pdf_with_pdfplumber_traced_def fallback_chain_def Let_def split: prod.split)

lemma pdfplumber_calls_shape:
  "parse_pdf_with_pdfplumber_traced pages = (t1, calls) \<Longrightarrow>
     calls = [(TableExtraction, Returned t1)]
     \<or> calls = [(TableExtraction, Returned []), (LinePattern, Returned t1)]"
  by (auto simp add: parse_pdf_with_pdfplumber_traced_def Let_def split: prod.splits if_splits)

lemma fallback_chain_advanced: "fallback_chain (snd (parse_pdf_statement_traced f))"
proof (cases "pdfplumber_pages f")
  case (Inl e)
  then show ?thesis by (simp add: parse_pdf_statement_traced_def fallback_chain_def)
next
  case (Inr pages)
  obtain t1 calls where p: "parse_pdf_with_pdfplumber_traced pages = (t1, calls)"
    by (cases "parse_pdf_with_pdfplumber_traced pages")
  from pdfplumber_calls_shape [OF p] show ?thesis
    by (auto simp add: parse_pdf_statement_traced_def Inr p Let_def fallback_chain_def)
qed

lemma fallback_chain_enhanced: "fallback_chain (snd (parse_pdf_traced now u))"
  by (simp add: parse_pdf_traced_def fallback_chain_def Let_def split: sum.split option.split)

lemma earlier_empty:
  assumes "list_all P (butlast xs)" and "i < j" and "j < length xs"
  shows "P (xs ! i)"
proof -
  have "i < length (butlast xs)" using assms(2,3) by simp
  then have "butlast xs ! i \<in> set (butlast xs)" by (rule nth_mem)
  moreover have "butlast xs ! i = xs ! i" using \<open>i < length (butlast xs)\<close> by (rule nth_butlast)
  ultimately show ?thesis using assms(1) by (simp add: list_all_iff)
qed

text \<open>
  Claim C2. In the calls that a parse of a PDF makes, every call before another one
  returned no transaction, and the calls follow the order of the chain: a strategy is
  invoked only if every strategy invoked before it returned zero transactions. This
  holds for the chain of the advanced parser (tables, line patterns, the second table
  reader, OCR) and for the chain of the enhanced parser (the Indian Bank format, line
  patterns, the AI extractor).
\<close>

theorem strategies_only_after_empty_results:
  "(\<forall>i j. i < j \<and> j < length (snd (parse_pdf_statement_traced f)) \<longrightarrow>
      snd (snd (parse_pdf_statement_traced f) ! i) = Returned [])
   \<and> sorted_wrt (<) (map (\<lambda>c. chain_rank (fst c)) (snd (parse_pdf_statement_traced f)))
   \<and> (\<forall>i j. i < j \<and> j < length (snd (parse_pdf_traced now u)) \<longrightarrow>
      snd (snd (parse_pdf_traced now u) ! i) = Returned [])
   \<and> sorted_wrt (<) (map (\<lambda>c. chain_rank (fst c)) (snd (parse_pdf_traced now u)))"
  using fallback_chain_advanced [of f] fallback_chain_enhanced [of now u]
  unfolding fallback_chain_def
  by (auto dest: earlier_empty)

theorem strategies_only_after_empty_results_witness:
  "map fst (snd (parse_pdf_statement_traced empty_pdf)) = [TableExtraction, CamelotTables, OCR]
   \<and> snd (snd (parse_pdf_statement_traced empty_pdf) ! 0) = Returned []
   \<and> snd (snd (parse_pdf_statement_traced empty_pdf) ! 1) = Returned []"
proof -
  have calls: "snd (parse_pdf_statement_traced empty_pdf)
     = [(TableExtraction, Returned []), (CamelotTables, Returned []), (OCR, Returned [])]"
    by (simp add: parse_pdf_statement_traced_def parse_pdf_with_pdfplumber_traced_def
          parse_pdf_with_camelot_def parse_pdf_with_ocr_def empty_pdf_def Let_def
          clean_and_categorize_transactions_def sort_reverse_def parse_text_with_regex_def
          List.map_filter_simps parse_line_def strip_def)
  have len: "length (snd (parse_pdf_statement_traced empty_pdf)) = 3"
    by (simp add: calls)
  note t = strategies_only_after_empty_results [of empty_pdf, THEN conjunct1, rule_format]
  have 0: "snd (snd (parse_pdf_statement_traced empty_pdf) ! 0) = Returned []"
    by (rule t [of 0 2]) (simp add: len)
  have 1: "snd (snd (parse_pdf_statement_traced empty_pdf) ! 1) = Returned []"
    by (rule t [of 1 2]) (simp add: len)
  have names: "map fst (snd (parse_pdf_statement_traced empty_pdf))
     = [TableExtraction, CamelotTables, OCR]"
    by (simp add: calls)
  show ?thesis using names 0 1 by (intro conjI)
qed

subsection \<open>Duplicates and idempotence of the cleanup\<close>

lemma keep_category [simp]: "keep (t\<lparr>category := c\<rparr>) = keep t"
  by (simp add: keep_def)









subsection \<open>The categorizers\<close>

lemma first_match_Some:
  "first_match ps s = Some c \<Longrightarrow>
     \<exists>i < length ps. c = fst (ps ! i) \<and> re_found (snd (ps ! i)) s
        \<and> (\<forall>j < i. \<not> re_found (snd (ps ! j)) s)"
proof (induction ps)
  case Nil
  then show ?case by simp
next
  case (Cons p ps)
  obtain name pattern where p: "p = (name, pattern)" by (cases p)
  show ?case
  proof (cases "re_found pattern s")
    case True
    with Cons.prems p have "c = name" by simp
    with True p show ?thesis by (intro exI [of _ 0]) simp
  next
    case False
    with Cons.prems p have "first_match ps s = Some c" by simp
    from Cons.IH [OF this] obtain i where i: "i < length ps" "c = fst (ps ! i)"
      "re_found (snd (ps ! i)) s" "\<forall>j < i. \<not> re_found (snd (ps ! j)) s" by blast
    have "\<forall>j < Suc i. \<not> re_found (snd ((p # ps) ! j)) s"
    proof (intro allI impI)
      fix j assume "j < Suc i"
      then show "\<not> re_found (snd ((p # ps) ! j)) s"
        using False p i(4) by (cases j) simp_all
    qed
    with i show ?thesis by (intro exI [of _ "Suc i"]) simp
  qed
qed

lemma first_match_None:
  "first_match ps s = None \<Longrightarrow> \<forall>p \<in> set ps. \<not> re_found (snd p) s"
proof (induction ps)
  case Nil
  show ?case by simp
next
  case (Cons p ps)
  obtain name pattern where p: "p = (name, pattern)" by (cases p)
  from Cons.prems have "\<not> re_found pattern s" and "first_match ps s = None"
    by (simp_all add: p split: if_splits)
  with Cons.IH show ?case by (simp add: p)
qed

lemma catch_all_found: "re_found (False, [[Rep p 0 None]]) s"
proof -
  have m: "match_at (False, [[Rep p 0 None]]) prev t \<noteq> None" for prev t
    by (simp add: match_at_def)
  show ?thesis
    using m [of None s]
    by (cases s) (auto simp add: re_found_def re_search_def split: option.splits)
qed

lemma category_names:
  "map fst CATEGORY_PATTERNS =
     [U ''food_dining'', U ''groceries'', U ''fuel'', U ''utilities'', U ''entertainment'',
      U ''transportation'', U ''shopping'', U ''medical'', U ''education'', U ''investment'',
      U ''transfer'', U ''salary'', U ''bank_charges'', U ''cash_withdrawal'', U ''others'']"
  by (simp add: CATEGORY_PATTERNS_def)

lemma last_pattern_found: "re_found (snd (CATEGORY_PATTERNS ! 14)) s"
  by (simp add: CATEGORY_PATTERNS_def catch_all_found)

lemma first_match_categories: "first_match CATEGORY_PATTERNS s \<noteq> None"
proof
  assume "first_match CATEGORY_PATTERNS s = None"
  from first_match_None [OF this] have "\<not> re_found (snd (CATEGORY_PATTERNS ! 14)) s"
    by (simp add: CATEGORY_PATTERNS_def)
  then show False using last_pattern_found by simp
qed

lemma enhanced_categorize_range:
  "enhanced_categorize d \<in> set [U ''salary'', U ''cash_withdrawal'', U ''groceries'', U ''fuel'',
      U ''food_dining'', U ''utilities'', U ''medical'', U ''shopping'', U ''transfer'',
      U ''loan'', U ''others'']"
  unfolding enhanced_categorize_def Let_def by (simp only: list.set insert_iff split: if_split) blast

text \<open>
  Claim C6, as the code has it. The categorizer of the advanced parser tests the ordered
  table of (category, pattern) pairs and returns the category of the first pattern found
  in the upper-cased description. The last pattern matches every description, so a
  description that none of the fourteen patterns before it matches yields \<open>others\<close>
  (not \<open>other\<close>), and every value returned is one of the fourteen named categories or
  \<open>others\<close>. The categorizer of the enhanced parser returns one of eleven values, among
  them \<open>loan\<close> and \<open>others\<close>.
\<close>

theorem categorizer_first_match_closed_set:
  "(\<exists>i < length CATEGORY_PATTERNS.
       categorize_transaction d = fst (CATEGORY_PATTERNS ! i)
       \<and> re_found (snd (CATEGORY_PATTERNS ! i)) (upper d)
       \<and> (\<forall>j < i. \<not> re_found (snd (CATEGORY_PATTERNS ! j)) (upper d)))
   \<and> ((\<forall>j < 14. \<not> re_found (snd (CATEGORY_PATTERNS ! j)) (upper d)) \<longrightarrow>
        categorize_transaction d = U ''others'')
   \<and> categorize_transaction d \<in> set
       [U ''food_dining'', U ''groceries'', U ''fuel'', U ''utilities'', U ''entertainment'',
        U ''transportation'', U ''shopping'', U ''medical'', U ''education'', U ''investment'',
        U ''transfer'', U ''salary'', U ''bank_charges'', U ''cash_withdrawal'', U ''others'']
   \<and> enhanced_categorize d \<in> set
       [U ''salary'', U ''cash_withdrawal'', U ''groceries'', U ''fuel'', U ''food_dining'',
        U ''utilities'', U ''medical'', U ''shopping'', U ''transfer'', U ''loan'', U ''others'']"
proof -
  obtain c where c: "first_match CATEGORY_PATTERNS (upper d) = Some c"
    using first_match_categories [of "upper d"] by auto
  then have cat: "categorize_transaction d = c" by (simp add: categorize_transaction_def)
  from first_match_Some [OF c] obtain i where i: "i < length CATEGORY_PATTERNS"
    "c = fst (CATEGORY_PATTERNS ! i)" "re_found (snd (CATEGORY_PATTERNS ! i)) (upper d)"
    "\<forall>j < i. \<not> re_found (snd (CATEGORY_PATTERNS ! j)) (upper d)" by blast
  have len: "length CATEGORY_PATTERNS = 15"
    using arg_cong [OF category_names, of length] by simp
  have 1: "\<exists>i < length CATEGORY_PATTERNS.
       categorize_transaction d = fst (CATEGORY_PATTERNS ! i)
       \<and> re_found (snd (CATEGORY_PATTERNS ! i)) (upper d)
       \<and> (\<forall>j < i. \<not> re_found (snd (CATEGORY_PATTERNS ! j)) (upper d))"
    using i cat by blast
  have mem: "c \<in> set (map fst CATEGORY_PATTERNS)"
    using i(1,2) by (metis length_map nth_map nth_mem)
  have 3: "categorize_transaction d \<in> set
       [U ''food_dining'', U ''groceries'', U ''fuel'', U ''utilities'', U ''entertainment'',
        U ''transportation'', U ''shopping'', U ''medical'', U ''education'', U ''investment'',
        U ''transfer'', U ''salary'', U ''bank_charges'', U ''cash_withdrawal'', U ''others'']"
    using mem unfolding cat category_names .
  have 2: "(\<forall>j < 14. \<not> re_found (snd (CATEGORY_PATTERNS ! j)) (upper d)) \<longrightarrow>
        categorize_transaction d = U ''others''"
  proof
    assume none: "\<forall>j < 14. \<not> re_found (snd (CATEGORY_PATTERNS ! j)) (upper d)"
    have "\<not> i < 14" using none i(3) by blast
    with i(1) len have "i = 14" by simp
    then have "c = fst (CATEGORY_PATTERNS ! 14)" using i(2) by simp
    also have "\<dots> = map fst CATEGORY_PATTERNS ! 14" using len by simp
    also have "\<dots> = U ''others''" unfolding category_names by simp
    finally show "categorize_transaction d = U ''others''" using cat by simp
  qed
  show ?thesis using 1 2 3 enhanced_categorize_range [of d] by (intro conjI)
qed

text \<open>The claim as stated fails: the value for an unmatched description is not in
  the set that the claim fixes.\<close>

theorem categorizer_closed_set_counterexample:
  "categorize_transaction (U ''XYZ'') \<notin> set
       [U ''food_dining'', U ''groceries'', U ''fuel'', U ''utilities'', U ''entertainment'',
        U ''transportation'', U ''shopping'', U ''medical'', U ''education'', U ''investment'',
        U ''transfer'', U ''salary'', U ''bank_charges'', U ''cash_withdrawal'', U ''other'']"
  by code_simp

theorem categorizer_first_match_closed_set_witness:
  "categorize_transaction (U ''XYZ'') = U ''others''"
proof -
  have h: "list_all (\<lambda>p. \<not> re_found (snd p) (upper (U ''XYZ''))) (take 14 CATEGORY_PATTERNS)"
    by code_simp
  have len: "length CATEGORY_PATTERNS = 15"
    using arg_cong [OF category_names, of length] by simp
  have "\<forall>j < 14. \<not> re_found (snd (CATEGORY_PATTERNS ! j)) (upper (U ''XYZ''))"
  proof (intro allI impI)
    fix j :: nat assume j: "j < 14"
    then have "j < length (take 14 CATEGORY_PATTERNS)" using len by simp
    with h have "\<not> re_found (snd (take 14 CATEGORY_PATTERNS ! j)) (upper (U ''XYZ''))"
      unfolding list_all_length by blast
    then show "\<not> re_found (snd (CATEGORY_PATTERNS ! j)) (upper (U ''XYZ''))"
      using j by simp
  qed
  with categorizer_first_match_closed_set [of "U ''XYZ''"] show ?thesis by blast
qed

subsection \<open>The amount of a line\<close>







subsection \<open>Descriptions\<close>

lemma title_types:
  "title (U ''credit'') = U ''Credit''"
  "title (U ''debit'') = U ''Debit''"
  by (simp_all add: title_def is_upper_def is_lower_def upper_char_def lower_char_def)

lemmas title_types_nf = title_types [simplified]

lemma extract_line_description:
  "extract_transaction_from_line line = Inr (Some t) \<Longrightarrow>
     (txn_type t = U ''credit'' \<or> txn_type t = U ''debit'')
     \<and> description t =
         take 200 (if strip_tokens line = [] \<or> length (strip_tokens line) < 3
                   then title (txn_type t) @ U '' Transaction'' else strip_tokens line)"
  unfolding extract_transaction_from_line_def Let_def
  by (auto split: if_splits option.splits list.splits)

lemma validate_entry_description:
  "validate_entry render entry = Some t \<Longrightarrow> length (description t) \<le> 200"
  unfolding validate_entry_def
  by (auto split: jval.splits if_splits option.splits)

lemma gemini_description:
  "t \<in> set (extract_with_gemini render resp) \<Longrightarrow> length (description t) \<le> 200"
  unfolding extract_with_gemini_def
  by (auto simp add: List.map_filter_def dest: validate_entry_description
        split: sum.splits option.splits)

text \<open>
  Claim C8, as the code has it. In every transaction that the line extractor of the
  enhanced parser produces, the description has between 1 and 200 characters, and it is
  the label made of the capitalised type and \<open>Transaction\<close> when fewer than three
  characters remain after the date and amount tokens are stripped. In every transaction
  of the AI extractor the description has at most 200 characters.
\<close>

theorem enhanced_description_bounded_never_empty:
  "(extract_transaction_from_line line = Inr (Some t) \<longrightarrow>
      1 \<le> length (description t) \<and> length (description t) \<le> 200
      \<and> (length (strip_tokens line) < 3 \<longrightarrow>
           description t = title (txn_type t) @ U '' Transaction''))
   \<and> (\<forall>t' \<in> set (extract_with_gemini render resp). length (description t') \<le> 200)"
proof (intro conjI impI ballI)
  assume e: "extract_transaction_from_line line = Inr (Some t)"
  note d = extract_line_description [OF e]
  from d have ty: "txn_type t = U ''credit'' \<or> txn_type t = U ''debit''" by blast
  show "1 \<le> length (description t)"
    using d ty by (auto simp add: title_types_nf)
  show "length (description t) \<le> 200"
    using d by simp
  assume "length (strip_tokens line) < 3"
  then show "description t = title (txn_type t) @ U '' Transaction''"
    using d ty by (auto simp add: title_types_nf)
next
  fix t' assume "t' \<in> set (extract_with_gemini render resp)"
  then show "length (description t') \<le> 200" by (rule gemini_description)
qed

text \<open>The claim as stated fails for the advanced parser: a table row without a
  description column gives a transaction with the empty description.\<close>

theorem empty_description_counterexample:
  "map_option description (extract_transaction_from_dict debit_row None) = Some []
   \<and> map_option amount (extract_transaction_from_dict debit_row None) = Some (Some 100)"
  by code_simp

theorem enhanced_description_bounded_never_empty_witness:
  "\<exists>t. extract_transaction_from_line bare_amount_line = Inr (Some t)
       \<and> description t = U ''Debit Transaction''"
proof -
  have "map_sum id (map_option txn_type) (extract_transaction_from_line bare_amount_line)
          = Inr (Some (U ''debit''))"
    by code_simp
  then obtain t where t: "extract_transaction_from_line bare_amount_line = Inr (Some t)"
    and ty: "txn_type t = U ''debit''"
    by (cases "extract_transaction_from_line bare_amount_line") auto
  have s: "length (strip_tokens bare_amount_line) < 3" by code_simp
  have "description t = title (txn_type t) @ U '' Transaction''"
    using enhanced_description_bounded_never_empty [of bare_amount_line t] t s by blast
  then have "description t = U ''Debit Transaction''"
    by (simp add: ty title_types_nf)
  with t show ?thesis by blast
qed

subsection \<open>Well-formed transactions\<close>


















































subsection \<open>The sample transactions of the enhanced parser\<close>










end
